theory Spec2Isabelle
  imports Complex_Main "HOL-Library.Sublist"
begin

section \<open>Python values and the library operations the application relies on\<close>

text \<open>
  Exceptions of the Python runtime are values. A computation that may raise returns
  \<open>py_error + 'a\<close>, with \<open>Inl\<close> for the raised exception.
\<close>

datatype py_error =
    TypeError
  | KeyError string
  | IndexError
  | AttributeError
  | ValueError string
  | ImportError string
  | ValidationError

text \<open>
  Strings are lists of characters. A Python string is a sequence of code points; the
  model covers the code points below 256, one \<open>char\<close> each, so that the degree
  sign of the weather summary is the single character \<open>0xB0\<close>.
\<close>

definition lower_char :: "char \<Rightarrow> char" where
  "lower_char c =
     (case map_of (zip ''ABCDEFGHIJKLMNOPQRSTUVWXYZ'' ''abcdefghijklmnopqrstuvwxyz'') c of
        Some d \<Rightarrow> d
      | None \<Rightarrow> c)"

definition upper_char :: "char \<Rightarrow> char" where
  "upper_char c =
     (case map_of (zip ''abcdefghijklmnopqrstuvwxyz'' ''ABCDEFGHIJKLMNOPQRSTUVWXYZ'') c of
        Some d \<Rightarrow> d
      | None \<Rightarrow> c)"

text \<open>\<open>str.lower()\<close> and \<open>str.capitalize()\<close>, on ASCII letters.\<close>

definition lower :: "string \<Rightarrow> string" where
  "lower s = map lower_char s"

definition capitalize :: "string \<Rightarrow> string" where
  "capitalize s = (case s of [] \<Rightarrow> [] | c # cs \<Rightarrow> upper_char c # map lower_char cs)"

text \<open>
  \<open>s.rfind(c)\<close> for a single character: the index of the last occurrence, if any.
\<close>

fun rfind :: "char \<Rightarrow> string \<Rightarrow> nat option" where
  "rfind c [] = None"
| "rfind c (x # xs) =
     (case rfind c xs of
        Some i \<Rightarrow> Some (Suc i)
      | None \<Rightarrow> if x = c then Some 0 else None)"

text \<open>
  \<open>s.rsplit(c, 1)\<close>: at most one split, at the last occurrence of the separator.
  Without the separator the result is the one-element list \<open>[s]\<close>.
\<close>

definition rsplit1 :: "char \<Rightarrow> string \<Rightarrow> string list" where
  "rsplit1 c s =
     (case rfind c s of
        None \<Rightarrow> [s]
      | Some i \<Rightarrow> [take i s, drop (Suc i) s])"

text \<open>List subscript with a non-negative index: out of range raises \<open>IndexError\<close>.\<close>

definition getitem :: "'a list \<Rightarrow> nat \<Rightarrow> py_error + 'a" where
  "getitem xs i = (if i < length xs then Inr (xs ! i) else Inl IndexError)"

text \<open>
  \<open>s.replace(old, new)\<close>: the non-overlapping occurrences of \<open>old\<close> are replaced
  from left to right. For the empty \<open>old\<close> Python inserts \<open>new\<close> before every
  character and at the end.
\<close>

function replace :: "string \<Rightarrow> string \<Rightarrow> string \<Rightarrow> string" where
  "replace old new s =
     (if old = [] then new @ concat (map (\<lambda>c. c # new) s)
      else if s = [] then []
      else if prefix old s then new @ replace old new (drop (length old) s)
      else hd s # replace old new (tl s))"
  by pat_completeness auto
termination
  by (relation "measure (\<lambda>(old, new, s). length s)") auto

declare replace.simps [simp del]

section \<open>Upload validation\<close>

definition ALLOWED_EXTENSIONS :: "string set" where
  "ALLOWED_EXTENSIONS = {''png'', ''jpg'', ''jpeg''}"

definition UPLOAD_FOLDER :: string where
  "UPLOAD_FOLDER = ''static/uploads''"

text \<open>
  \<open>allowed_file(filename)\<close>:
  \<^verbatim>\<open>'.' in filename and filename.rsplit('.', 1)[1].lower() in ALLOWED_EXTENSIONS\<close>.
  The subscript \<open>[1]\<close> is kept as a possible \<open>IndexError\<close>.
\<close>

definition allowed_file :: "string \<Rightarrow> py_error + bool" where
  "allowed_file filename =
     (if CHR ''.'' \<in> set filename
      then (case getitem (rsplit1 (CHR ''.'') filename) 1 of
              Inl err \<Rightarrow> Inl err
            | Inr ext \<Rightarrow> Inr (lower ext \<in> ALLOWED_EXTENSIONS))
      else Inr False)"

text \<open>
  The specification's wording of the same check: the name contains a dot and the part
  after its last dot is, ignoring case, one of the allowed extensions.
\<close>

definition after_last_dot :: "string \<Rightarrow> string" where
  "after_last_dot s = rev (takeWhile (\<lambda>c. c \<noteq> CHR ''.'') (rev s))"

definition allowed_file_spec :: "string \<Rightarrow> bool" where
  "allowed_file_spec filename \<longleftrightarrow>
     CHR ''.'' \<in> set filename \<and> lower (after_last_dot filename) \<in> {''png'', ''jpg'', ''jpeg''}"

section \<open>Humanizing a class label\<close>

text \<open>
  The label goes into the prompt as
  \<^verbatim>\<open>disease.replace('___', ' ').replace('_', ' ')\<close> and onto the page as
  \<^verbatim>\<open>disease.replace('___', ' - ').replace('_', ' ')\<close>.
\<close>

definition humanize_prompt :: "string \<Rightarrow> string" where
  "humanize_prompt disease = replace ''_'' '' '' (replace ''___'' '' '' disease)"

definition humanize_display :: "string \<Rightarrow> string" where
  "humanize_display disease = replace ''_'' '' '' (replace ''___'' '' - '' disease)"

section \<open>Numbers as text\<close>

definition digit_char :: "nat \<Rightarrow> char" where
  "digit_char d = ''0123456789'' ! (d mod 10)"

fun nat_str :: "nat \<Rightarrow> string" where
  "nat_str n = (if n < 10 then [digit_char n] else nat_str (n div 10) @ [digit_char (n mod 10)])"

declare nat_str.simps [simp del]

text \<open>\<open>str(i)\<close> for a Python integer.\<close>

definition int_str :: "int \<Rightarrow> string" where
  "int_str i = (if i < 0 then CHR ''-'' # nat_str (nat (- i)) else nat_str (nat i))"

text \<open>
  Floats are modelled as exact reals: binary rounding error is outside the model.
  \<open>round(x, 2)\<close> rounds to the nearest hundredth, a tie going to the even one.
\<close>

definition round_half_even :: "real \<Rightarrow> int" where
  "round_half_even r =
     (let f = \<lfloor>r\<rfloor>; d = r - of_int f
      in if d < 1 / 2 then f
         else if 1 / 2 < d then f + 1
         else if even f then f else f + 1)"

definition py_round2 :: "real \<Rightarrow> real" where
  "py_round2 x = of_int (round_half_even (x * 100)) / 100"

text \<open>
  \<open>str(x)\<close> for a float that is a whole number of hundredths (as every result of
  \<open>round(x, 2)\<close> is), of magnitude below the switch to exponent notation: the
  integer part, a point, and the decimals without a trailing zero, one decimal at least.
  The sign of a zero is not modelled.
\<close>

definition float_str :: "real \<Rightarrow> string" where
  "float_str x =
     (let n = nat \<lfloor>\<bar>x\<bar> * 100\<rfloor>; ip = n div 100; fp = n mod 100
      in (if x < 0 then ''-'' else '''') @ nat_str ip @ ''.'' @
         (if fp mod 10 = 0 then [digit_char (fp div 10)]
          else [digit_char (fp div 10), digit_char (fp mod 10)]))"

text \<open>The page's confidence: \<^verbatim>\<open>f"{round(confidence * 100, 2)}%"\<close>.\<close>

definition format_confidence :: "real \<Rightarrow> string" where
  "format_confidence confidence = float_str (py_round2 (confidence * 100)) @ ''%''"

section \<open>JSON payloads\<close>

datatype json =
    JNull
  | JBool bool
  | JInt int
  | JFloat real
  | JStr string
  | JArr "json list"
  | JObj "(string \<times> json) list"

definition bind_err :: "py_error + 'a \<Rightarrow> ('a \<Rightarrow> py_error + 'b) \<Rightarrow> py_error + 'b" where
  "bind_err m f = (case m of Inl err \<Rightarrow> Inl err | Inr x \<Rightarrow> f x)"

text \<open>\<open>v[k]\<close> with a string key: only a dict accepts it.\<close>

definition getitem_key :: "json \<Rightarrow> string \<Rightarrow> py_error + json" where
  "getitem_key v k =
     (case v of
        JObj d \<Rightarrow> (case map_of d k of None \<Rightarrow> Inl (KeyError k) | Some x \<Rightarrow> Inr x)
      | _ \<Rightarrow> Inl TypeError)"

text \<open>\<open>v[i]\<close> with a non-negative integer: a list, a string or a dict (whose keys
  are strings, so the integer is a missing key).\<close>

definition getitem_idx :: "json \<Rightarrow> nat \<Rightarrow> py_error + json" where
  "getitem_idx v i =
     (case v of
        JArr xs \<Rightarrow> getitem xs i
      | JStr s \<Rightarrow> (if i < length s then Inr (JStr [s ! i]) else Inl IndexError)
      | JObj d \<Rightarrow> Inl (KeyError (nat_str i))
      | _ \<Rightarrow> Inl TypeError)"

text \<open>\<open>v.get(k, default)\<close>: a method of dicts only.\<close>

definition py_get :: "json \<Rightarrow> string \<Rightarrow> json \<Rightarrow> py_error + json" where
  "py_get v k dflt =
     (case v of
        JObj d \<Rightarrow> Inr (case map_of d k of None \<Rightarrow> dflt | Some x \<Rightarrow> x)
      | _ \<Rightarrow> Inl AttributeError)"

text \<open>\<open>v.capitalize()\<close>: a method of strings only.\<close>

definition py_capitalize :: "json \<Rightarrow> py_error + string" where
  "py_capitalize v = (case v of JStr s \<Rightarrow> Inr (capitalize s) | _ \<Rightarrow> Inl AttributeError)"

text \<open>
  A value inside an f-string. The text of a float, a list or a dict is the runtime's
  \<open>repr\<close>, taken as a parameter.
\<close>

definition py_format :: "(json \<Rightarrow> string) \<Rightarrow> json \<Rightarrow> string" where
  "py_format repr v =
     (case v of
        JStr s \<Rightarrow> s
      | JInt i \<Rightarrow> int_str i
      | JNull \<Rightarrow> ''None''
      | JBool b \<Rightarrow> (if b then ''True'' else ''False'')
      | _ \<Rightarrow> repr v)"

section \<open>The weather summary of the analyze handler\<close>

text \<open>
  \<^verbatim>\<open>f"{weather_data['weather'][0]['description'].capitalize()}, {weather_data['main']['temp']}\<degree>C"
  if 'main' in weather_data else "Weather data unavailable"\<close>
\<close>

definition weather_summary :: "(json \<Rightarrow> string) \<Rightarrow> (string \<times> json) list \<Rightarrow> py_error + string" where
  "weather_summary repr weather_data =
     (if map_of weather_data ''main'' \<noteq> None
      then bind_err (getitem_key (JObj weather_data) ''weather'') (\<lambda>w.
           bind_err (getitem_idx w 0) (\<lambda>w0.
           bind_err (getitem_key w0 ''description'') (\<lambda>dsc.
           bind_err (py_capitalize dsc) (\<lambda>cap.
           bind_err (getitem_key (JObj weather_data) ''main'') (\<lambda>m.
           bind_err (getitem_key m ''temp'') (\<lambda>t.
           Inr (cap @ '', '' @ py_format repr t @ [CHR 0xB0] @ ''C'')))))))
      else Inr ''Weather data unavailable'')"

section \<open>Arg-max and maximum of a vector\<close>

text \<open>
  \<open>np.argmax\<close> scans the vector once and moves to a later entry only when it is
  strictly greater, so the first of several equal maxima is kept. On an empty vector it
  raises \<open>ValueError\<close>, as \<open>np.max\<close> does.
\<close>

fun argmax_loop :: "'a::linorder list \<Rightarrow> nat \<Rightarrow> 'a \<Rightarrow> nat \<Rightarrow> nat" where
  "argmax_loop [] i mp mi = mi"
| "argmax_loop (x # xs) i mp mi =
     (if mp < x then argmax_loop xs (Suc i) x i else argmax_loop xs (Suc i) mp mi)"

definition np_argmax :: "'a::linorder list \<Rightarrow> py_error + nat" where
  "np_argmax v =
     (case v of
        [] \<Rightarrow> Inl (ValueError ''attempt to get argmax of an empty sequence'')
      | x # xs \<Rightarrow> Inr (argmax_loop xs 1 x 0))"

definition np_max :: "'a::linorder list \<Rightarrow> py_error + 'a" where
  "np_max v =
     (case v of
        [] \<Rightarrow> Inl (ValueError ''zero-size array to reduction operation maximum which has no identity'')
      | x # xs \<Rightarrow> Inr (fold max xs x))"

section \<open>Effects and collaborators\<close>

text \<open>
  What a request does beyond returning a value is recorded as a list of events, in
  order. A computation returns its events and either the raised exception or its value.
\<close>

datatype event =
    Flash string string
  | FileSaved string
  | PredictDiseaseCalled string
  | PreprocessCalled string
  | ModelPredicted
  | CurrentWeatherFetched string
  | ForecastWeatherFetched string
  | ChainInvoked string
  | ClientConstructed string

type_synonym 'a io = "event list \<times> (py_error + 'a)"

definition io_bind :: "'a io \<Rightarrow> ('a \<Rightarrow> 'b io) \<Rightarrow> 'b io" where
  "io_bind m f =
     (case m of
        (ev, Inl err) \<Rightarrow> (ev, Inl err)
      | (ev, Inr x) \<Rightarrow> (case f x of (ev', r) \<Rightarrow> (ev @ ev', r)))"

definition io_lift :: "event list \<Rightarrow> py_error + 'a \<Rightarrow> 'a io" where
  "io_lift ev r = (ev, r)"

text \<open>The chat-model handle that \<open>load_llm\<close> constructs: model name and API key.\<close>

datatype chat_model = ChatGroq json string | ChatOpenAI json string

text \<open>
  The module-level state of the application (\<open>llm\<close>, \<open>model\<close>,
  \<open>class_names\<close>) together with the third-party operations the handlers call:
  the image decoder, the colour conversion, resizing and batching of a decoded image
  (\<open>to_input\<close>), the weather tool, the call of the chat model, werkzeug's
  \<open>secure_filename\<close>, the markdown renderer and the runtime's \<open>repr\<close>.
\<close>

record ('img, 'ten) app =
  llm :: "chat_model option"
  model :: "('ten \<Rightarrow> py_error + real list list) option"
  class_names :: "string list"
  imread :: "string \<Rightarrow> 'img option"
  to_input :: "'img \<Rightarrow> py_error + 'ten"
  get_current_weather :: "string \<Rightarrow> py_error + (string \<times> json) list"
  get_forecast_weather :: "string \<Rightarrow> py_error + (string \<times> json) list"
  chat_invoke :: "chat_model \<Rightarrow> string \<Rightarrow> py_error + string"
  secure_filename :: "string \<Rightarrow> string"
  markdown :: "string \<Rightarrow> string"
  py_repr :: "json \<Rightarrow> string"

section \<open>Preprocessing and classification\<close>

text \<open>\<open>preprocess_image\<close>: a file that does not decode gives \<open>None\<close>.\<close>

definition preprocess_image :: "('img, 'ten) app \<Rightarrow> string \<Rightarrow> 'ten option io" where
  "preprocess_image a image_path =
     (case imread a image_path of
        None \<Rightarrow> ([PreprocessCalled image_path], Inr None)
      | Some img \<Rightarrow>
          ([PreprocessCalled image_path],
           bind_err (to_input a img) (\<lambda>t. Inr (Some t))))"

text \<open>
  \<open>predict_disease\<close>: the two sentinel results, then the prediction, the index of its
  greatest entry in the first row, the class name at that index and the greatest entry.
\<close>

definition predict_disease :: "('img, 'ten) app \<Rightarrow> string \<Rightarrow> (string \<times> real) io" where
  "predict_disease a img_path =
     (case model a of
        None \<Rightarrow> ([PredictDiseaseCalled img_path], Inr (''Model not loaded'', 0))
      | Some m \<Rightarrow>
          io_bind ([PredictDiseaseCalled img_path], Inr ()) (\<lambda>_.
          io_bind (preprocess_image a img_path) (\<lambda>processed_img.
            case processed_img of
              None \<Rightarrow> ([], Inr (''Processing failed'', 0))
            | Some t \<Rightarrow>
                io_bind ([ModelPredicted], m t) (\<lambda>predictions.
                io_lift []
                  (bind_err (getitem predictions 0) (\<lambda>row.
                   bind_err (np_argmax row) (\<lambda>idx.
                   bind_err (getitem (class_names a) idx) (\<lambda>name.
                   bind_err (np_max row) (\<lambda>conf.
                   Inr (name, conf))))))))))"

section \<open>Prompt and advice\<close>

definition nl :: string where
  "nl = [CHR 0x0A]"

definition PLANT_CARE_PROMPT_head :: string where
  "PLANT_CARE_PROMPT_head = concat
     [''You are a professional AI Plant Pathologist and Agricultural Advisor.'', nl,
      ''    '', nl,
      ''    Current Findings:'', nl,
      ''    - Detected Disease: '']"

definition PLANT_CARE_PROMPT_mid :: string where
  "PLANT_CARE_PROMPT_mid = concat
     [nl, ''    - Current Weather at Location: '']"

definition PLANT_CARE_PROMPT_tail :: string where
  "PLANT_CARE_PROMPT_tail = concat
     [nl,
      ''    '', nl,
      ''    Instructions:'', nl,
      ''    1. Explain what this disease is briefly.'', nl,
      ''    2. Provide 3 specific treatment steps.'', nl,
      ''    3. IMPORTANT: Give custom advice based on the weather. '', nl,
      ''       (e.g., If it'', [CHR 0x27], ''s humid, suggest better spacing. If it'', [CHR 0x27],
      ''s raining, warn about fungal spread. If it'', [CHR 0x27],
      ''s hot, suggest watering timing).'', nl,
      ''    4. Provide 2 prevention tips.'', nl,
      nl,
      ''    Format: Use clear Markdown with headings.'', nl,
      ''    '']"

text \<open>The template with its two variables filled in.\<close>

definition PLANT_CARE_PROMPT :: "string \<Rightarrow> string \<Rightarrow> string" where
  "PLANT_CARE_PROMPT disease weather_data =
     PLANT_CARE_PROMPT_head @ disease @ PLANT_CARE_PROMPT_mid @ weather_data @ PLANT_CARE_PROMPT_tail"

text \<open>
  \<^verbatim>\<open>chain = PLANT_CARE_PROMPT | llm | StrOutputParser()\<close>: the pipe operator of the
  template coerces its right operand to a runnable and raises \<open>TypeError\<close> for
  \<open>None\<close>. \<^verbatim>\<open>chain.invoke({...})\<close> then formats the template, calls the chat model
  and returns the text of its answer.
\<close>

definition make_chain :: "chat_model option \<Rightarrow> py_error + chat_model" where
  "make_chain l = (case l of None \<Rightarrow> Inl TypeError | Some h \<Rightarrow> Inr h)"

definition chain_invoke :: "('img, 'ten) app \<Rightarrow> chat_model \<Rightarrow> string \<Rightarrow> string \<Rightarrow> string io" where
  "chain_invoke a chain disease weather_data =
     ([ChainInvoked (PLANT_CARE_PROMPT disease weather_data)],
      chat_invoke a chain (PLANT_CARE_PROMPT disease weather_data))"

text \<open>
  \<open>get_combined_advice\<close>, with its guard \<^verbatim>\<open>if not llm: return "AI advice unavailable."\<close>
  in front of everything else.
\<close>

definition get_combined_advice :: "('img, 'ten) app \<Rightarrow> string \<Rightarrow> string \<Rightarrow> string io" where
  "get_combined_advice a disease_name city =
     (case llm a of
        None \<Rightarrow> ([], Inr ''AI advice unavailable.'')
      | Some h \<Rightarrow>
          io_bind ([CurrentWeatherFetched city], get_current_weather a city) (\<lambda>weather_data.
          io_bind ([ForecastWeatherFetched city], get_forecast_weather a city) (\<lambda>forecast_data.
          io_bind (io_lift []
            (bind_err (py_get (JObj weather_data) ''weather'' (JArr [JObj []])) (\<lambda>w.
             bind_err (getitem_idx w 0) (\<lambda>w0.
             bind_err (py_get w0 ''description'' (JStr ''N/A'')) (\<lambda>dsc.
             bind_err (py_get (JObj weather_data) ''main'' (JObj [])) (\<lambda>m.
             bind_err (py_get m ''temp'' JNull) (\<lambda>t.
             Inr (''Weather in '' @ city @ '': '' @ py_format (py_repr a) dsc @ '', '' @
                  ''Temp: '' @ py_format (py_repr a) t @ [CHR 0xB0] @ ''C. ''))))))))
            (\<lambda>weather_summary.
          io_bind (io_lift [] (make_chain (llm a))) (\<lambda>chain.
          chain_invoke a chain (humanize_prompt disease_name) weather_summary)))))"

section \<open>Requests and the analyze route\<close>

datatype http_method = GET | POST

text \<open>
  A request: its method, the session, the form field \<open>city\<close> and the file name of the
  upload in the field \<open>file\<close>, each absent or present. In a condition an
  upload object counts as true when its file name is not empty, a form field when it is
  present and not empty.
\<close>

record request =
  http_method :: http_method
  session :: "(string \<times> json) list"
  form_city :: "string option"
  files_file :: "string option"

datatype response =
    Redirect string
  | RenderTemplate string "(string \<times> string) list"

text \<open>\<open>os.path.join\<close> of two POSIX path components.\<close>

definition path_join :: "string \<Rightarrow> string \<Rightarrow> string" where
  "path_join a b =
     (if prefix ''/'' b then b
      else if a = [] \<or> suffix ''/'' a then a @ b
      else a @ ''/'' @ b)"

text \<open>
  The decorator \<open>login_required\<close>: without the key \<open>logged_in\<close> in the session
  the wrapped view is not called.
\<close>

definition login_required :: "(request \<Rightarrow> response io) \<Rightarrow> request \<Rightarrow> response io" where
  "login_required f req =
     (if map_of (session req) ''logged_in'' = None
      then ([Flash ''Please log in to access this page.'' ''warning''], Inr (Redirect ''signin''))
      else f req)"

text \<open>The body of \<open>analyze\<close>, as written under the decorator.\<close>

definition analyze_view :: "('img, 'ten) app \<Rightarrow> request \<Rightarrow> response io" where
  "analyze_view a req =
     (if http_method req = POST
      then
        (case files_file req of
           None \<Rightarrow> ([], Inr (RenderTemplate ''analyze.html'' []))
         | Some fname \<Rightarrow>
             if fname = [] then ([], Inr (RenderTemplate ''analyze.html'' []))
             else io_bind (io_lift [] (allowed_file fname)) (\<lambda>ok.
               if \<not> ok then ([], Inr (RenderTemplate ''analyze.html'' []))
               else
                 (case form_city req of
                    None \<Rightarrow> ([], Inr (RenderTemplate ''analyze.html'' []))
                  | Some city \<Rightarrow>
                      if city = [] then ([], Inr (RenderTemplate ''analyze.html'' []))
                      else
                        (let filename = secure_filename a fname;
                             filepath = path_join UPLOAD_FOLDER filename
                         in io_bind ([FileSaved filepath], Inr ()) (\<lambda>_.
                            io_bind (predict_disease a filepath) (\<lambda>(disease, confidence).
                            io_bind ([CurrentWeatherFetched city], get_current_weather a city)
                              (\<lambda>weather_data.
                            io_bind (io_lift [] (weather_summary (py_repr a) weather_data))
                              (\<lambda>weather_summary.
                            io_bind (io_lift [] (make_chain (llm a))) (\<lambda>chain.
                            io_bind (chain_invoke a chain (humanize_prompt disease) weather_summary)
                              (\<lambda>advice_md.
                            ([], Inr (RenderTemplate ''analyze.html''
                               [(''filename'', filename),
                                (''disease'', humanize_display disease),
                                (''confidence'', format_confidence confidence),
                                (''weather'', weather_summary),
                                (''city'', city),
                                (''remedy'', markdown a advice_md)]))))))))))))
      else ([], Inr (RenderTemplate ''analyze.html'' [])))"

definition analyze :: "('img, 'ten) app \<Rightarrow> request \<Rightarrow> response io" where
  "analyze a = login_required (analyze_view a)"

section \<open>Loading the chat model\<close>

text \<open>
  What \<open>load_llm\<close> reads from its surroundings: whether each client library was
  importable, the process environment, and the outcome of reading the configuration
  file.
\<close>

record loader_env =
  ChatGroq_installed :: bool
  ChatOpenAI_installed :: bool
  environ :: "(string \<times> string) list"
  read_yaml :: "py_error + json"

record model_loader =
  model_provider :: string
  config :: json

text \<open>
  Constructing a \<open>ModelLoader\<close>: the provider field is validated against the two
  literals, then the configuration is read.
\<close>

definition new_ModelLoader :: "loader_env \<Rightarrow> string \<Rightarrow> py_error + model_loader" where
  "new_ModelLoader env provider =
     (if provider \<noteq> ''groq'' \<and> provider \<noteq> ''openai'' then Inl ValidationError
      else bind_err (read_yaml env) (\<lambda>c. Inr \<lparr>model_provider = provider, config = c\<rparr>))"

text \<open>\<open>self.config["llm"][provider]["model_name"]\<close>\<close>

definition config_model_name :: "json \<Rightarrow> string \<Rightarrow> py_error + json" where
  "config_model_name c provider =
     bind_err (getitem_key c ''llm'') (\<lambda>l.
     bind_err (getitem_key l provider) (\<lambda>p.
     getitem_key p ''model_name''))"

text \<open>
  \<open>load_llm\<close>. The key read from the environment counts as missing when the variable
  is unset or empty. Console output is not modelled.
\<close>

definition load_llm :: "loader_env \<Rightarrow> model_loader \<Rightarrow> chat_model io" where
  "load_llm env self =
     (if model_provider self = ''groq'' then
        (if \<not> ChatGroq_installed env then
           ([], Inl (ImportError
              ''langchain_groq is not installed. Install it using: pip install langchain-groq''))
         else
           (case map_of (environ env) ''GROQ_API_KEY'' of
              None \<Rightarrow> ([], Inl (ValueError ''GROQ_API_KEY missing! Check your .env file.''))
            | Some api_key \<Rightarrow>
                if api_key = [] then
                  ([], Inl (ValueError ''GROQ_API_KEY missing! Check your .env file.''))
                else
                  io_bind (io_lift [] (config_model_name (config self) ''groq'')) (\<lambda>model_name.
                  ([ClientConstructed ''groq''], Inr (ChatGroq model_name api_key)))))
      else if model_provider self = ''openai'' then
        (if \<not> ChatOpenAI_installed env then
           ([], Inl (ImportError
              ''langchain_openai is not installed. Install it using: pip install langchain-openai''))
         else
           (case map_of (environ env) ''OPENAI_API_KEY'' of
              None \<Rightarrow> ([], Inl (ValueError ''OPENAI_API_KEY missing! Check your .env file.''))
            | Some api_key \<Rightarrow>
                if api_key = [] then
                  ([], Inl (ValueError ''OPENAI_API_KEY missing! Check your .env file.''))
                else
                  io_bind (io_lift [] (config_model_name (config self) ''openai'')) (\<lambda>model_name.
                  ([ClientConstructed ''openai''], Inr (ChatOpenAI model_name api_key)))))
      else ([], Inl (ValueError (''Unsupported provider: '' @ model_provider self))))"

text \<open>
  The start of the application: any exception while constructing the loader or loading
  the model leaves \<open>llm\<close> set to \<open>None\<close>.
\<close>

definition startup_llm :: "loader_env \<Rightarrow> chat_model option" where
  "startup_llm env =
     (case bind_err (new_ModelLoader env ''groq'') (\<lambda>ld. snd (load_llm env ld)) of
        Inl err \<Rightarrow> None
      | Inr h \<Rightarrow> Some h)"

section \<open>Sample inputs\<close>

definition sample_weather :: "(string \<times> json) list" where
  "sample_weather =
     [(''main'', JObj [(''temp'', JInt 30)]),
      (''weather'', JArr [JObj [(''description'', JStr ''clear sky'')]])]"

definition sample_app :: "(unit, unit) app" where
  "sample_app =
     \<lparr>llm = Some (ChatGroq (JStr ''llama'') ''secret''),
      model = Some (\<lambda>t. Inr [[5 / 100, 92 / 100, 3 / 100]]),
      class_names = [''Apple___healthy'', ''Tomato___Early_blight'', ''Tomato___healthy''],
      imread = (\<lambda>p. if p = ''static/uploads/leaf.jpg'' then Some () else None),
      to_input = (\<lambda>img. Inr ()),
      get_current_weather = (\<lambda>c. Inr sample_weather),
      get_forecast_weather = (\<lambda>c. Inr []),
      chat_invoke = (\<lambda>h p. Inr ''## Advice''),
      secure_filename = (\<lambda>f. f),
      markdown = (\<lambda>md. md),
      py_repr = (\<lambda>v. ''?'')\<rparr>"

definition sample_request :: request where
  "sample_request =
     \<lparr>http_method = POST,
      session = [(''logged_in'', JBool True)],
      form_city = Some ''Mumbai'',
      files_file = Some ''leaf.jpg''\<rparr>"

definition sample_env :: loader_env where
  "sample_env =
     \<lparr>ChatGroq_installed = True,
      ChatOpenAI_installed = False,
      environ = [(''OPENAI_API_KEY'', ''sk'')],
      read_yaml = Inr (JObj [(''llm'', JObj [(''groq'', JObj [(''model_name'', JStr ''llama'')])])])\<rparr>"

definition error_payload :: "(string \<times> json) list" where
  "error_payload = [(''cod'', JStr ''404''), (''message'', JStr ''city not found'')]"

definition tie_app :: "(unit, unit) app" where
  "tie_app =
     sample_app\<lparr>model := Some (\<lambda>t. Inr [[1 / 10, 4 / 10, 4 / 10, 1 / 10]]),
                class_names := [''Apple___scab'', ''Corn___rust'', ''Grape___rot'', ''Potato___blight'']\<rparr>"

section \<open>Properties of the string operations\<close>

lemma rfind_None_iff: "rfind c s = None \<longleftrightarrow> c \<notin> set s"
  by (induction s) (auto split: option.splits)

lemma rfind_Some_drop:
  "rfind c s = Some i \<Longrightarrow>
     i < length s \<and> drop (Suc i) s = rev (takeWhile (\<lambda>x. x \<noteq> c) (rev s))"
proof (induction s arbitrary: i)
  case Nil
  then show ?case by simp
next
  case (Cons x xs)
  show ?case
  proof (cases "rfind c xs")
    case None
    then have notin: "c \<notin> set xs" by (simp add: rfind_None_iff)
    from Cons.prems None have i0: "i = 0" and xc: "x = c"
      by (auto split: if_splits)
    from notin have "takeWhile (\<lambda>x. x \<noteq> c) (rev xs @ [c]) = rev xs"
      by (subst takeWhile_append2) auto
    with i0 xc show ?thesis by simp
  next
    case (Some j)
    with Cons.prems have ij: "i = Suc j" by simp
    from Cons.IH [OF Some] have jlen: "j < length xs"
      and jdrop: "drop (Suc j) xs = rev (takeWhile (\<lambda>x. x \<noteq> c) (rev xs))" by simp_all
    from Some have "c \<in> set xs" using rfind_None_iff [of c xs] by auto
    then have "takeWhile (\<lambda>x. x \<noteq> c) (rev xs @ [x]) = takeWhile (\<lambda>x. x \<noteq> c) (rev xs)"
      by (auto simp: takeWhile_append)
    with ij jlen jdrop show ?thesis by simp
  qed
qed

lemma replace_char_absent:
  "c \<notin> set new \<Longrightarrow> c \<notin> set (replace [c] new s)"
proof (induction "[c]" new s rule: replace.induct)
  case (1 new s)
  show ?case
  proof (cases s)
    case Nil
    then show ?thesis by (simp add: replace.simps)
  next
    case (Cons x xs)
    show ?thesis
    proof (cases "x = c")
      case True
      with Cons have pre: "prefix [c] s" by simp
      from Cons have ne: "s \<noteq> []" by simp
      from "1.hyps"(1) [OF _ ne pre] "1.prems"
      have "c \<notin> set (replace [c] new (drop (length [c]) s))" by simp
      with pre ne "1.prems" show ?thesis
        by (subst replace.simps) simp
    next
      case False
      with Cons have npre: "\<not> prefix [c] s" by simp
      from Cons have ne: "s \<noteq> []" by simp
      from "1.hyps"(2) [OF _ ne npre] "1.prems"
      have "c \<notin> set (replace [c] new (tl s))" by simp
      with npre ne False Cons show ?thesis
        by (subst replace.simps) simp
    qed
  qed
qed

lemma allowed_file_eq_spec: "allowed_file f = Inr (allowed_file_spec f)"
proof (cases "rfind (CHR ''.'') f")
  case None
  then have "CHR ''.'' \<notin> set f" by (simp add: rfind_None_iff)
  then show ?thesis by (simp add: allowed_file_def allowed_file_spec_def)
next
  case (Some i)
  then have dot: "CHR ''.'' \<in> set f" using rfind_None_iff [of "CHR ''.''" f] by auto
  from rfind_Some_drop [OF Some]
  have "drop (Suc i) f = after_last_dot f" by (simp add: after_last_dot_def)
  with Some dot show ?thesis
    by (simp add: allowed_file_def allowed_file_spec_def rsplit1_def getitem_def
        ALLOWED_EXTENSIONS_def)
qed

section \<open>Properties of the sequencing operators\<close>

lemma bind_err_Inl [simp]: "bind_err (Inl e) f = Inl e"
  by (simp add: bind_err_def)

lemma bind_err_Inr [simp]: "bind_err (Inr x) f = f x"
  by (simp add: bind_err_def)

lemma io_bind_Inl [simp]: "io_bind (ev, Inl e) f = (ev, Inl e)"
  by (simp add: io_bind_def)

lemma io_bind_Inr [simp]: "io_bind (ev, Inr x) f = (ev @ fst (f x), snd (f x))"
  by (simp add: io_bind_def split: prod.splits)

lemma io_lift_eq [simp]: "io_lift ev r = (ev, r)"
  by (simp add: io_lift_def)

section \<open>Properties of the arg-max\<close>

lemma argmax_loop_correct:
  "mi < length pre \<Longrightarrow> pre ! mi = mp \<Longrightarrow> \<forall>y\<in>set pre. y \<le> mp \<Longrightarrow>
   \<forall>j<mi. pre ! j < mp \<Longrightarrow> i = length pre \<Longrightarrow>
   argmax_loop xs i mp mi < length (pre @ xs)
   \<and> (\<forall>y\<in>set (pre @ xs). y \<le> (pre @ xs) ! argmax_loop xs i mp mi)
   \<and> (\<forall>j<argmax_loop xs i mp mi. (pre @ xs) ! j < (pre @ xs) ! argmax_loop xs i mp mi)"
proof (induction xs arbitrary: pre mi mp i)
  case Nil
  then show ?case by simp
next
  case (Cons x xs)
  show ?case
  proof (cases "mp < x")
    case True
    have a: "i < length (pre @ [x])" using Cons.prems by simp
    have b: "(pre @ [x]) ! i = x" using Cons.prems by simp
    have c: "\<forall>y\<in>set (pre @ [x]). y \<le> x" using Cons.prems True by auto
    have d: "\<forall>j<i. (pre @ [x]) ! j < x"
    proof (intro allI impI)
      fix j assume "j < i"
      with Cons.prems have "pre ! j \<in> set pre" and "(pre @ [x]) ! j = pre ! j"
        by (simp_all add: nth_append)
      with Cons.prems True show "(pre @ [x]) ! j < x" by auto
    qed
    have e: "Suc i = length (pre @ [x])" using Cons.prems by simp
    from Cons.IH [OF a b c d e] True show ?thesis by simp
  next
    case False
    have a: "mi < length (pre @ [x])" using Cons.prems by simp
    have b: "(pre @ [x]) ! mi = mp" using Cons.prems by (simp add: nth_append)
    have c: "\<forall>y\<in>set (pre @ [x]). y \<le> mp" using Cons.prems False by auto
    have d: "\<forall>j<mi. (pre @ [x]) ! j < mp" using Cons.prems by (simp add: nth_append)
    have e: "Suc i = length (pre @ [x])" using Cons.prems by simp
    from Cons.IH [OF a b c d e] False show ?thesis by simp
  qed
qed

lemma np_argmax_first_max:
  assumes "row \<noteq> []"
  shows "\<exists>idx. np_argmax row = Inr idx \<and> idx < length row \<and> row ! idx = Max (set row)
           \<and> (\<forall>j<idx. row ! j < row ! idx)"
proof -
  from assms obtain x xs where row: "row = x # xs" by (cases row) auto
  define r where "r = argmax_loop xs 1 x 0"
  have "r < length ([x] @ xs) \<and> (\<forall>y\<in>set ([x] @ xs). y \<le> ([x] @ xs) ! r)
        \<and> (\<forall>j<r. ([x] @ xs) ! j < ([x] @ xs) ! r)"
    unfolding r_def by (rule argmax_loop_correct) simp_all
  then have len: "r < length row" and ub: "\<forall>y\<in>set row. y \<le> row ! r"
    and first: "\<forall>j<r. row ! j < row ! r"
    using row by simp_all
  from len have "row ! r \<in> set row" by simp
  with ub have "Max (set row) = row ! r" by (intro Max_eqI) auto
  moreover have "np_argmax row = Inr r" by (simp add: np_argmax_def row r_def)
  ultimately show ?thesis using len first by auto
qed

lemma np_max_eq_Max: "row \<noteq> [] \<Longrightarrow> np_max row = Inr (Max (set row))"
proof (cases row)
  case Nil
  assume "row \<noteq> []"
  with Nil show ?thesis by simp
next
  case (Cons x xs)
  have "Max (set (x # xs)) = fold max xs x" by (rule Max.set_eq_fold)
  with Cons show ?thesis by (simp add: np_max_def)
qed

section \<open>Properties of the handlers\<close>

lemma predict_disease_loaded:
  assumes "model a = Some m" "imread a p = Some img" "to_input a img = Inr t"
    "m t = Inr predictions"
  shows "predict_disease a p =
           ([PredictDiseaseCalled p, PreprocessCalled p, ModelPredicted],
            bind_err (getitem predictions 0) (\<lambda>row.
            bind_err (np_argmax row) (\<lambda>idx.
            bind_err (getitem (class_names a) idx) (\<lambda>name.
            bind_err (np_max row) (\<lambda>conf.
            Inr (name, conf))))))"
  using assms by (simp add: predict_disease_def preprocess_image_def)

lemma analyze_logged_in:
  "''logged_in'' \<in> fst ` set (session req) \<Longrightarrow> analyze a req = analyze_view a req"
  by (simp add: analyze_def login_required_def map_of_eq_None_iff)

lemma analyze_view_render:
  assumes "http_method req = POST" "files_file req = Some fname" "fname \<noteq> []"
    "allowed_file fname = Inr True" "form_city req = Some city" "city \<noteq> []"
    "snd (predict_disease a (path_join UPLOAD_FOLDER (secure_filename a fname)))
       = Inr (disease, confidence)"
    "get_current_weather a city = Inr wd"
    "weather_summary (py_repr a) wd = Inr ws"
    "llm a = Some h"
    "chat_invoke a h (PLANT_CARE_PROMPT (humanize_prompt disease) ws) = Inr md"
  shows "snd (analyze_view a req) =
           Inr (RenderTemplate ''analyze.html''
                  [(''filename'', secure_filename a fname),
                   (''disease'', humanize_display disease),
                   (''confidence'', format_confidence confidence),
                   (''weather'', ws),
                   (''city'', city),
                   (''remedy'', markdown a md)])"
proof -
  obtain ev where pd: "predict_disease a (path_join UPLOAD_FOLDER (secure_filename a fname))
      = (ev, Inr (disease, confidence))"
    using assms(7) by (cases "predict_disease a (path_join UPLOAD_FOLDER (secure_filename a fname))") auto
  show ?thesis
    using assms(1-6) assms(8-11) pd
    by (simp add: analyze_view_def Let_def make_chain_def chain_invoke_def)
qed

lemma analyze_view_no_llm:
  assumes "http_method req = POST" "files_file req = Some fname" "fname \<noteq> []"
    "allowed_file fname = Inr True" "form_city req = Some city" "city \<noteq> []"
    "predict_disease a (path_join UPLOAD_FOLDER (secure_filename a fname))
       = (ev, Inr (disease, confidence))"
    "get_current_weather a city = Inr wd"
    "weather_summary (py_repr a) wd = Inr ws"
    "llm a = None"
  shows "analyze_view a req =
           (FileSaved (path_join UPLOAD_FOLDER (secure_filename a fname)) # ev
              @ [CurrentWeatherFetched city],
            Inl TypeError)"
  using assms by (simp add: analyze_view_def Let_def make_chain_def)


section \<open>The sample inputs evaluated\<close>

lemma sample_allowed: "allowed_file ''leaf.jpg'' = Inr True"
  by (simp add: allowed_file_eq_spec allowed_file_spec_def after_last_dot_def lower_def
      lower_char_def)

lemma sample_path: "path_join UPLOAD_FOLDER ''leaf.jpg'' = ''static/uploads/leaf.jpg''"
  by (simp add: path_join_def UPLOAD_FOLDER_def suffix_def)

lemma sample_predict:
  assumes "model a = model sample_app" and "imread a = imread sample_app"
    and "to_input a = to_input sample_app" and "class_names a = class_names sample_app"
  shows "predict_disease a ''static/uploads/leaf.jpg'' =
           ([PredictDiseaseCalled ''static/uploads/leaf.jpg'',
             PreprocessCalled ''static/uploads/leaf.jpg'', ModelPredicted],
            Inr (''Tomato___Early_blight'', 92 / 100))"
proof -
  have m: "model a = Some (\<lambda>t. Inr [[5 / 100, 92 / 100, 3 / 100]])"
    using assms(1) by (simp add: sample_app_def)
  have i: "imread a ''static/uploads/leaf.jpg'' = Some ()"
    using assms(2) by (simp add: sample_app_def)
  have t: "to_input a () = Inr ()" using assms(3) by (simp add: sample_app_def)
  have p: "(\<lambda>t. Inr [[5 / 100, 92 / 100, 3 / 100]]) ()
      = (Inr [[5 / 100, 92 / 100, 3 / 100]] :: py_error + real list list)" by simp
  have c: "class_names a = [''Apple___healthy'', ''Tomato___Early_blight'', ''Tomato___healthy'']"
    using assms(4) by (simp add: sample_app_def)
  show ?thesis
    by (simp add: predict_disease_loaded [OF m i t p] c getitem_def np_argmax_def np_max_def)
qed

lemma sample_summary:
  "weather_summary repr sample_weather = Inr (''Clear sky, 30'' @ [CHR 0xB0] @ ''C'')"
  by (simp add: weather_summary_def sample_weather_def getitem_key_def getitem_idx_def
      getitem_def py_capitalize_def capitalize_def upper_char_def lower_char_def py_format_def
      int_str_def nat_str.simps digit_char_def)

lemma sample_confidence: "format_confidence (92 / 100) = ''92.0%''"
  by (simp add: format_confidence_def float_str_def py_round2_def round_half_even_def Let_def
      nat_str.simps digit_char_def)

section \<open>The upload check and the label\<close>

text \<open>
  C10. \<open>allowed_file\<close> never raises and accepts a file name exactly when the name
  contains a dot and the part after its last dot is, ignoring case, one of png, jpg,
  jpeg. A name without a dot, such as "png", is rejected; the upper-case "LEAF.JPG" is
  accepted.
\<close>

theorem allowed_file_iff_spec:
  "allowed_file filename = Inr (allowed_file_spec filename)
   \<and> (CHR ''.'' \<notin> set filename \<longrightarrow> allowed_file filename = Inr False)
   \<and> allowed_file ''png'' = Inr False
   \<and> allowed_file ''LEAF.JPG'' = Inr True"
proof -
  have nodot: "CHR ''.'' \<notin> set filename \<longrightarrow> allowed_file filename = Inr False"
    by (simp add: allowed_file_def)
  have png: "allowed_file ''png'' = Inr False"
    by (simp add: allowed_file_def)
  have "allowed_file_spec ''LEAF.JPG''"
    by (simp add: allowed_file_spec_def after_last_dot_def lower_def lower_char_def)
  then have leaf: "allowed_file ''LEAF.JPG'' = Inr True"
    by (simp add: allowed_file_eq_spec)
  from allowed_file_eq_spec [of filename] nodot png leaf show ?thesis by blast
qed

theorem allowed_file_iff_spec_witness:
  "CHR ''.'' \<notin> set ''photo'' \<and> allowed_file ''photo'' = Inr False
   \<and> allowed_file ''leaf.gif'' = Inr (allowed_file_spec ''leaf.gif'')
   \<and> \<not> allowed_file_spec ''leaf.gif''"
proof -
  have nd: "CHR ''.'' \<notin> set ''photo''" by simp
  have ns: "\<not> allowed_file_spec ''leaf.gif''"
    by (simp add: allowed_file_spec_def after_last_dot_def lower_def lower_char_def)
  from allowed_file_iff_spec [of "''photo''"] nd
  have a: "allowed_file ''photo'' = Inr False" by blast
  from allowed_file_iff_spec [of "''leaf.gif''"]
  have b: "allowed_file ''leaf.gif'' = Inr (allowed_file_spec ''leaf.gif'')" by blast
  from nd a b ns show ?thesis by blast
qed

text \<open>
  C4. Whatever the class label, neither the name shown on the page nor the name put
  into the prompt contains an underscore: the second \<open>replace\<close> removes every
  underscore the first one left.
\<close>

theorem humanize_no_underscore:
  "CHR ''_'' \<notin> set (humanize_display disease) \<and> CHR ''_'' \<notin> set (humanize_prompt disease)"
proof -
  have sp: "CHR ''_'' \<notin> set '' ''" by simp
  from replace_char_absent [OF sp] show ?thesis
    by (simp add: humanize_display_def humanize_prompt_def)
qed

section \<open>The classifier\<close>

text \<open>
  C2. In its two guarded cases \<open>predict_disease\<close> returns a value and raises nothing:
  without a loaded model the pair ("Model not loaded", 0.0), and with a model but a
  path whose preprocessing gives \<open>None\<close> the pair ("Processing failed", 0.0).
\<close>

theorem predict_disease_sentinels:
  "(model a = None \<longrightarrow> snd (predict_disease a p) = Inr (''Model not loaded'', 0))
   \<and> (model a \<noteq> None \<and> snd (preprocess_image a p) = Inr None \<longrightarrow>
        snd (predict_disease a p) = Inr (''Processing failed'', 0))"
proof (intro conjI impI)
  assume "model a = None"
  then show "snd (predict_disease a p) = Inr (''Model not loaded'', 0)"
    by (simp add: predict_disease_def)
next
  assume h: "model a \<noteq> None \<and> snd (preprocess_image a p) = Inr None"
  then obtain m where m: "model a = Some m" by auto
  obtain ev where pre: "preprocess_image a p = (ev, Inr None)"
    using h by (cases "preprocess_image a p") auto
  from m pre show "snd (predict_disease a p) = Inr (''Processing failed'', 0)"
    by (simp add: predict_disease_def)
qed

theorem predict_disease_sentinels_witness:
  "model (sample_app\<lparr>model := None\<rparr>) = None
   \<and> snd (predict_disease (sample_app\<lparr>model := None\<rparr>) ''static/uploads/leaf.jpg'')
       = Inr (''Model not loaded'', 0)
   \<and> model sample_app \<noteq> None
   \<and> snd (preprocess_image sample_app ''static/uploads/broken.jpg'') = Inr None
   \<and> snd (predict_disease sample_app ''static/uploads/broken.jpg'')
       = Inr (''Processing failed'', 0)"
proof -
  have h1: "model (sample_app\<lparr>model := None\<rparr>) = None" by simp
  have h2: "model sample_app \<noteq> None" by (simp add: sample_app_def)
  have h3: "snd (preprocess_image sample_app ''static/uploads/broken.jpg'') = Inr None"
    by (simp add: preprocess_image_def sample_app_def)
  from predict_disease_sentinels [of "sample_app\<lparr>model := None\<rparr>" "''static/uploads/leaf.jpg''"] h1
  have c1: "snd (predict_disease (sample_app\<lparr>model := None\<rparr>) ''static/uploads/leaf.jpg'')
       = Inr (''Model not loaded'', 0)" by blast
  from predict_disease_sentinels [of sample_app "''static/uploads/broken.jpg''"] h2 h3
  have c2: "snd (predict_disease sample_app ''static/uploads/broken.jpg'')
       = Inr (''Processing failed'', 0)" by blast
  from h1 c1 h2 h3 c2 show ?thesis by blast
qed

text \<open>
  C5. With a loaded model and a decodable image the selected index is the arg-max of
  the first row of the prediction: an index of a greatest entry with every earlier
  entry strictly smaller, so that among equal maxima the lowest index is taken. The
  index is a function of the row alone. The label is the class name at that index and
  the confidence is the greatest entry itself, unchanged.
\<close>

theorem predict_disease_argmax:
  assumes "model a = Some m" and "imread a p = Some img" and "to_input a img = Inr t"
    and "m t = Inr (row # rest)" and "row \<noteq> []"
  shows "\<exists>idx. np_argmax row = Inr idx \<and> idx < length row \<and> row ! idx = Max (set row)
           \<and> (\<forall>j<idx. row ! j < row ! idx)
           \<and> snd (predict_disease a p) =
               (if idx < length (class_names a)
                then Inr (class_names a ! idx, Max (set row))
                else Inl IndexError)"
proof -
  from np_argmax_first_max [OF assms(5)] obtain idx where
    am: "np_argmax row = Inr idx" and len: "idx < length row"
    and mx: "row ! idx = Max (set row)" and first: "\<forall>j<idx. row ! j < row ! idx"
    by blast
  have "snd (predict_disease a p) =
          (if idx < length (class_names a)
           then Inr (class_names a ! idx, Max (set row))
           else Inl IndexError)"
    using predict_disease_loaded [OF assms(1-4)] am np_max_eq_Max [OF assms(5)]
    by (simp add: getitem_def)
  with am len mx first show ?thesis by blast
qed

theorem predict_disease_argmax_witness:
  "model tie_app = Some (\<lambda>t. Inr [[1 / 10, 4 / 10, 4 / 10, 1 / 10]])
   \<and> imread tie_app ''static/uploads/leaf.jpg'' = Some ()
   \<and> to_input tie_app () = Inr ()
   \<and> snd (predict_disease tie_app ''static/uploads/leaf.jpg'') = Inr (''Corn___rust'', 4 / 10)"
proof -
  let ?row = "[1 / 10, 4 / 10, 4 / 10, 1 / 10 :: real]"
  have h1: "model tie_app = Some (\<lambda>t. Inr [?row])" by (simp add: tie_app_def)
  have h2: "imread tie_app ''static/uploads/leaf.jpg'' = Some ()"
    by (simp add: tie_app_def sample_app_def)
  have h3: "to_input tie_app () = Inr ()" by (simp add: tie_app_def sample_app_def)
  have h4: "(\<lambda>t. Inr [?row]) () = (Inr (?row # []) :: py_error + real list list)" by simp
  have h5: "?row \<noteq> []" by simp
  have am: "np_argmax ?row = Inr 1" by (simp add: np_argmax_def)
  have mx: "Max (set ?row) = 4 / 10" by simp
  have cn: "class_names tie_app =
      [''Apple___scab'', ''Corn___rust'', ''Grape___rot'', ''Potato___blight'']"
    by (simp add: tie_app_def)
  from predict_disease_argmax [OF h1 h2 h3 h4 h5] am mx cn
  have "snd (predict_disease tie_app ''static/uploads/leaf.jpg'') = Inr (''Corn___rust'', 4 / 10)"
    by auto
  with h1 h2 h3 show ?thesis by blast
qed

section \<open>The analyze route\<close>

text \<open>
  C8. A request to the analyze route whose session has no key \<open>logged_in\<close> is
  answered with a redirect to the sign-in route; the only effect is the flashed
  message, so neither \<open>predict_disease\<close> nor \<open>preprocess_image\<close> nor the model is
  called.
\<close>

theorem analyze_unauthenticated_redirects:
  assumes "''logged_in'' \<notin> fst ` set (session req)"
  shows "analyze a req =
           ([Flash ''Please log in to access this page.'' ''warning''], Inr (Redirect ''signin''))
         \<and> PredictDiseaseCalled p \<notin> set (fst (analyze a req))
         \<and> PreprocessCalled p \<notin> set (fst (analyze a req))
         \<and> ModelPredicted \<notin> set (fst (analyze a req))"
  using assms by (simp add: analyze_def login_required_def map_of_eq_None_iff)

theorem analyze_unauthenticated_redirects_witness:
  "''logged_in'' \<notin> fst ` set (session (sample_request\<lparr>session := []\<rparr>))
   \<and> analyze sample_app (sample_request\<lparr>session := []\<rparr>) =
       ([Flash ''Please log in to access this page.'' ''warning''], Inr (Redirect ''signin''))"
proof -
  have h: "''logged_in'' \<notin> fst ` set (session (sample_request\<lparr>session := []\<rparr>))" by simp
  from analyze_unauthenticated_redirects [OF h, of sample_app] h show ?thesis by blast
qed

text \<open>
  C9. For a signed-in POST to the analyze route whose file name has an extension
  outside the allow-list, or whose city field is missing or empty, the empty form is
  rendered and nothing else happens: no file is saved and neither the preprocessor nor
  the classifier is called.
\<close>

theorem analyze_rejects_invalid_upload:
  assumes "''logged_in'' \<in> fst ` set (session req)" and "http_method req = POST"
    and "(\<exists>fname. files_file req = Some fname
            \<and> lower (after_last_dot fname) \<notin> ALLOWED_EXTENSIONS)
         \<or> form_city req = None \<or> form_city req = Some []"
  shows "analyze a req = ([], Inr (RenderTemplate ''analyze.html'' []))"
proof -
  have view: "analyze a req = analyze_view a req"
    using assms(1) by (rule analyze_logged_in)
  from assms(3) show ?thesis
  proof (elim disjE exE conjE)
    fix fname
    assume f: "files_file req = Some fname"
      and ext: "lower (after_last_dot fname) \<notin> ALLOWED_EXTENSIONS"
    from ext have "allowed_file fname = Inr False"
      by (simp add: allowed_file_eq_spec allowed_file_spec_def ALLOWED_EXTENSIONS_def)
    with f assms(2) view show ?thesis
      by (simp add: analyze_view_def)
  next
    assume c: "form_city req = None"
    show ?thesis
    proof (cases "files_file req")
      case None
      with assms(2) view show ?thesis by (simp add: analyze_view_def)
    next
      case (Some fname)
      with assms(2) view c show ?thesis
        by (simp add: analyze_view_def allowed_file_eq_spec)
    qed
  next
    assume c: "form_city req = Some []"
    show ?thesis
    proof (cases "files_file req")
      case None
      with assms(2) view show ?thesis by (simp add: analyze_view_def)
    next
      case (Some fname)
      with assms(2) view c show ?thesis
        by (simp add: analyze_view_def allowed_file_eq_spec)
    qed
  qed
qed

theorem analyze_rejects_invalid_upload_witness:
  "analyze sample_app (sample_request\<lparr>files_file := Some ''photo.gif''\<rparr>)
     = ([], Inr (RenderTemplate ''analyze.html'' []))
   \<and> analyze sample_app (sample_request\<lparr>form_city := Some []\<rparr>)
     = ([], Inr (RenderTemplate ''analyze.html'' []))"
proof -
  let ?r1 = "sample_request\<lparr>files_file := Some ''photo.gif''\<rparr>"
  let ?r2 = "sample_request\<lparr>form_city := Some []\<rparr>"
  have a1: "''logged_in'' \<in> fst ` set (session ?r1)" by (simp add: sample_request_def)
  have b1: "http_method ?r1 = POST" by (simp add: sample_request_def)
  have "lower (after_last_dot ''photo.gif'') \<notin> ALLOWED_EXTENSIONS"
    by (simp add: after_last_dot_def lower_def lower_char_def ALLOWED_EXTENSIONS_def)
  then have c1: "(\<exists>fname. files_file ?r1 = Some fname
            \<and> lower (after_last_dot fname) \<notin> ALLOWED_EXTENSIONS)
         \<or> form_city ?r1 = None \<or> form_city ?r1 = Some []" by simp
  have a2: "''logged_in'' \<in> fst ` set (session ?r2)" by (simp add: sample_request_def)
  have b2: "http_method ?r2 = POST" by (simp add: sample_request_def)
  have c2: "(\<exists>fname. files_file ?r2 = Some fname
            \<and> lower (after_last_dot fname) \<notin> ALLOWED_EXTENSIONS)
         \<or> form_city ?r2 = None \<or> form_city ?r2 = Some []" by simp
  from analyze_rejects_invalid_upload [OF a1 b1 c1, of sample_app]
    analyze_rejects_invalid_upload [OF a2 b2 c2, of sample_app]
  show ?thesis by blast
qed

text \<open>
  C3. A weather payload without the key \<open>main\<close> gives exactly the summary
  "Weather data unavailable", and that is the weather text of the page the handler
  renders for it.
\<close>

theorem weather_summary_without_main:
  assumes "''main'' \<notin> fst ` set weather_data"
  shows "weather_summary repr weather_data = Inr ''Weather data unavailable''
         \<and> (''logged_in'' \<in> fst ` set (session req) \<and> http_method req = POST
              \<and> files_file req = Some fname \<and> fname \<noteq> [] \<and> allowed_file fname = Inr True
              \<and> form_city req = Some city \<and> city \<noteq> []
              \<and> snd (predict_disease a (path_join UPLOAD_FOLDER (secure_filename a fname)))
                  = Inr (disease, confidence)
              \<and> get_current_weather a city = Inr weather_data
              \<and> llm a = Some h
              \<and> chat_invoke a h
                  (PLANT_CARE_PROMPT (humanize_prompt disease) ''Weather data unavailable'')
                  = Inr md
            \<longrightarrow> snd (analyze a req) =
                  Inr (RenderTemplate ''analyze.html''
                         [(''filename'', secure_filename a fname),
                          (''disease'', humanize_display disease),
                          (''confidence'', format_confidence confidence),
                          (''weather'', ''Weather data unavailable''),
                          (''city'', city),
                          (''remedy'', markdown a md)]))"
proof -
  have ws: "weather_summary r weather_data = Inr ''Weather data unavailable''" for r
    using assms by (simp add: weather_summary_def map_of_eq_None_iff)
  show ?thesis
  proof (intro conjI impI)
    show "weather_summary repr weather_data = Inr ''Weather data unavailable''" by (rule ws)
  next
    assume h: "''logged_in'' \<in> fst ` set (session req) \<and> http_method req = POST
              \<and> files_file req = Some fname \<and> fname \<noteq> [] \<and> allowed_file fname = Inr True
              \<and> form_city req = Some city \<and> city \<noteq> []
              \<and> snd (predict_disease a (path_join UPLOAD_FOLDER (secure_filename a fname)))
                  = Inr (disease, confidence)
              \<and> get_current_weather a city = Inr weather_data
              \<and> llm a = Some h
              \<and> chat_invoke a h
                  (PLANT_CARE_PROMPT (humanize_prompt disease) ''Weather data unavailable'')
                  = Inr md"
    then have "analyze a req = analyze_view a req" by (simp add: analyze_logged_in)
    moreover have "snd (analyze_view a req) =
                  Inr (RenderTemplate ''analyze.html''
                         [(''filename'', secure_filename a fname),
                          (''disease'', humanize_display disease),
                          (''confidence'', format_confidence confidence),
                          (''weather'', ''Weather data unavailable''),
                          (''city'', city),
                          (''remedy'', markdown a md)])"
      by (rule analyze_view_render [where wd = weather_data and h = h]) (use h ws in simp_all)
    ultimately show "snd (analyze a req) =
                  Inr (RenderTemplate ''analyze.html''
                         [(''filename'', secure_filename a fname),
                          (''disease'', humanize_display disease),
                          (''confidence'', format_confidence confidence),
                          (''weather'', ''Weather data unavailable''),
                          (''city'', city),
                          (''remedy'', markdown a md)])" by simp
  qed
qed

theorem weather_summary_without_main_witness:
  "''main'' \<notin> fst ` set error_payload
   \<and> weather_summary (\<lambda>v. ''?'') error_payload = Inr ''Weather data unavailable''
   \<and> snd (analyze (sample_app\<lparr>get_current_weather := \<lambda>c. Inr error_payload\<rparr>) sample_request) =
       Inr (RenderTemplate ''analyze.html''
              [(''filename'', ''leaf.jpg''),
               (''disease'', humanize_display ''Tomato___Early_blight''),
               (''confidence'', format_confidence (92 / 100)),
               (''weather'', ''Weather data unavailable''),
               (''city'', ''Mumbai''),
               (''remedy'', ''## Advice'')])"
proof -
  let ?a = "sample_app\<lparr>get_current_weather := \<lambda>c. Inr error_payload\<rparr>"
  have lacks: "''main'' \<notin> fst ` set error_payload" by (simp add: error_payload_def)
  have sf: "secure_filename ?a ''leaf.jpg'' = ''leaf.jpg''" by (simp add: sample_app_def)
  have md: "markdown ?a ''## Advice'' = ''## Advice''" by (simp add: sample_app_def)
  have pd0: "predict_disease ?a ''static/uploads/leaf.jpg'' =
           ([PredictDiseaseCalled ''static/uploads/leaf.jpg'',
             PreprocessCalled ''static/uploads/leaf.jpg'', ModelPredicted],
            Inr (''Tomato___Early_blight'', 92 / 100))"
    by (rule sample_predict) simp_all
  have pd: "snd (predict_disease ?a (path_join UPLOAD_FOLDER (secure_filename ?a ''leaf.jpg'')))
      = Inr (''Tomato___Early_blight'', 92 / 100)"
    by (simp only: sf sample_path pd0 snd_conv)
  have hyps: "''logged_in'' \<in> fst ` set (session sample_request)
      \<and> http_method sample_request = POST
      \<and> files_file sample_request = Some ''leaf.jpg'' \<and> ''leaf.jpg'' \<noteq> []
      \<and> allowed_file ''leaf.jpg'' = Inr True
      \<and> form_city sample_request = Some ''Mumbai'' \<and> ''Mumbai'' \<noteq> []
      \<and> snd (predict_disease ?a (path_join UPLOAD_FOLDER (secure_filename ?a ''leaf.jpg'')))
          = Inr (''Tomato___Early_blight'', 92 / 100)
      \<and> get_current_weather ?a ''Mumbai'' = Inr error_payload
      \<and> llm ?a = Some (ChatGroq (JStr ''llama'') ''secret'')
      \<and> chat_invoke ?a (ChatGroq (JStr ''llama'') ''secret'')
          (PLANT_CARE_PROMPT (humanize_prompt ''Tomato___Early_blight'') ''Weather data unavailable'')
          = Inr ''## Advice''"
    using pd sample_allowed by (simp add: sample_request_def sample_app_def)
  from weather_summary_without_main [OF lacks, of "\<lambda>v. ''?''" sample_request "''leaf.jpg''"
      "''Mumbai''" ?a "''Tomato___Early_blight''" "92 / 100" "ChatGroq (JStr ''llama'') ''secret''"
      "''## Advice''"] hyps lacks sf md
  show ?thesis by simp
qed

text \<open>
  C6. When the classifier returns the confidence 0.92 and the weather tool the payload
  \<open>{main: {temp: 30}, weather: [{description: "clear sky"}]}\<close>, the page of a valid,
  signed-in upload shows the confidence "92.0%" (a hundred times the confidence,
  rounded to two decimals, then a percent sign) and the weather "Clear sky, 30" followed
  by the degree sign and "C".
\<close>

theorem analyze_renders_confidence_and_weather:
  assumes "''logged_in'' \<in> fst ` set (session req)" and "http_method req = POST"
    and "files_file req = Some fname" and "fname \<noteq> []" and "allowed_file fname = Inr True"
    and "form_city req = Some city" and "city \<noteq> []"
    and "snd (predict_disease a (path_join UPLOAD_FOLDER (secure_filename a fname)))
           = Inr (disease, 92 / 100)"
    and "get_current_weather a city =
           Inr [(''main'', JObj [(''temp'', JInt 30)]),
                (''weather'', JArr [JObj [(''description'', JStr ''clear sky'')]])]"
    and "llm a = Some h"
    and "chat_invoke a h
           (PLANT_CARE_PROMPT (humanize_prompt disease) (''Clear sky, 30'' @ [CHR 0xB0] @ ''C''))
           = Inr md"
  shows "snd (analyze a req) =
           Inr (RenderTemplate ''analyze.html''
                  [(''filename'', secure_filename a fname),
                   (''disease'', humanize_display disease),
                   (''confidence'', ''92.0%''),
                   (''weather'', ''Clear sky, 30'' @ [CHR 0xB0] @ ''C''),
                   (''city'', city),
                   (''remedy'', markdown a md)])"
proof -
  have view: "analyze a req = analyze_view a req"
    using assms(1) by (rule analyze_logged_in)
  have wd: "get_current_weather a city = Inr sample_weather"
    using assms(9) by (simp add: sample_weather_def)
  have "snd (analyze_view a req) =
           Inr (RenderTemplate ''analyze.html''
                  [(''filename'', secure_filename a fname),
                   (''disease'', humanize_display disease),
                   (''confidence'', format_confidence (92 / 100)),
                   (''weather'', ''Clear sky, 30'' @ [CHR 0xB0] @ ''C''),
                   (''city'', city),
                   (''remedy'', markdown a md)])"
    by (rule analyze_view_render [OF assms(2-8) wd sample_summary assms(10) assms(11)])
  then show ?thesis by (simp only: view sample_confidence)
qed

theorem analyze_renders_confidence_and_weather_witness:
  "snd (analyze sample_app sample_request) =
     Inr (RenderTemplate ''analyze.html''
            [(''filename'', ''leaf.jpg''),
             (''disease'', humanize_display ''Tomato___Early_blight''),
             (''confidence'', ''92.0%''),
             (''weather'', ''Clear sky, 30'' @ [CHR 0xB0] @ ''C''),
             (''city'', ''Mumbai''),
             (''remedy'', ''## Advice'')])"
proof -
  have h1: "''logged_in'' \<in> fst ` set (session sample_request)"
    by (simp add: sample_request_def)
  have h2: "http_method sample_request = POST" by (simp add: sample_request_def)
  have h3: "files_file sample_request = Some ''leaf.jpg''" by (simp add: sample_request_def)
  have h4: "''leaf.jpg'' \<noteq> []" by simp
  have h6: "form_city sample_request = Some ''Mumbai''" by (simp add: sample_request_def)
  have h7: "''Mumbai'' \<noteq> []" by simp
  have sf: "secure_filename sample_app ''leaf.jpg'' = ''leaf.jpg''" by (simp add: sample_app_def)
  have md: "markdown sample_app ''## Advice'' = ''## Advice''" by (simp add: sample_app_def)
  have pd0: "predict_disease sample_app ''static/uploads/leaf.jpg'' =
           ([PredictDiseaseCalled ''static/uploads/leaf.jpg'',
             PreprocessCalled ''static/uploads/leaf.jpg'', ModelPredicted],
            Inr (''Tomato___Early_blight'', 92 / 100))"
    by (rule sample_predict) simp_all
  have h8: "snd (predict_disease sample_app
               (path_join UPLOAD_FOLDER (secure_filename sample_app ''leaf.jpg'')))
      = Inr (''Tomato___Early_blight'', 92 / 100)"
    by (simp only: sf sample_path pd0 snd_conv)
  have h9: "get_current_weather sample_app ''Mumbai'' =
           Inr [(''main'', JObj [(''temp'', JInt 30)]),
                (''weather'', JArr [JObj [(''description'', JStr ''clear sky'')]])]"
    by (simp add: sample_app_def sample_weather_def)
  have h10: "llm sample_app = Some (ChatGroq (JStr ''llama'') ''secret'')"
    by (simp add: sample_app_def)
  have h11: "chat_invoke sample_app (ChatGroq (JStr ''llama'') ''secret'')
           (PLANT_CARE_PROMPT (humanize_prompt ''Tomato___Early_blight'')
              (''Clear sky, 30'' @ [CHR 0xB0] @ ''C''))
           = Inr ''## Advice''"
    by (simp add: sample_app_def)
  from analyze_renders_confidence_and_weather
    [OF h1 h2 h3 h4 sample_allowed h6 h7 h8 h9 h10 h11] sf md
  show ?thesis by simp
qed

section \<open>The model loader\<close>

text \<open>
  C7. \<open>load_llm\<close> fails in three different ways. A provider other than "groq" and
  "openai" gives the "Unsupported provider" error. A supported provider whose client
  library is not installed gives an \<open>ImportError\<close>. A supported provider whose
  library is installed but whose API key is not in the environment gives the
  \<open>ValueError\<close> of the missing key. In each case no client has been constructed, and
  the three errors are different values.
\<close>

theorem load_llm_failure_kinds:
  "(model_provider self \<notin> {''groq'', ''openai''} \<longrightarrow>
      load_llm env self =
        ([], Inl (ValueError (''Unsupported provider: '' @ model_provider self))))
   \<and> (model_provider self = ''groq'' \<and> \<not> ChatGroq_installed env \<longrightarrow>
      load_llm env self =
        ([], Inl (ImportError
           ''langchain_groq is not installed. Install it using: pip install langchain-groq'')))
   \<and> (model_provider self = ''openai'' \<and> \<not> ChatOpenAI_installed env \<longrightarrow>
      load_llm env self =
        ([], Inl (ImportError
           ''langchain_openai is not installed. Install it using: pip install langchain-openai'')))
   \<and> (model_provider self = ''groq'' \<and> ChatGroq_installed env
        \<and> ''GROQ_API_KEY'' \<notin> fst ` set (environ env) \<longrightarrow>
      load_llm env self =
        ([], Inl (ValueError ''GROQ_API_KEY missing! Check your .env file.'')))
   \<and> (model_provider self = ''openai'' \<and> ChatOpenAI_installed env
        \<and> ''OPENAI_API_KEY'' \<notin> fst ` set (environ env) \<longrightarrow>
      load_llm env self =
        ([], Inl (ValueError ''OPENAI_API_KEY missing! Check your .env file.'')))
   \<and> ValueError (''Unsupported provider: '' @ model_provider self)
        \<noteq> ValueError ''GROQ_API_KEY missing! Check your .env file.''
   \<and> ValueError (''Unsupported provider: '' @ model_provider self)
        \<noteq> ValueError ''OPENAI_API_KEY missing! Check your .env file.''
   \<and> (\<forall>msg msg'. ImportError msg \<noteq> ValueError msg')"
proof (intro conjI impI allI)
  assume "model_provider self \<notin> {''groq'', ''openai''}"
  then show "load_llm env self =
        ([], Inl (ValueError (''Unsupported provider: '' @ model_provider self)))"
    by (simp add: load_llm_def)
next
  assume "model_provider self = ''groq'' \<and> \<not> ChatGroq_installed env"
  then show "load_llm env self =
        ([], Inl (ImportError
           ''langchain_groq is not installed. Install it using: pip install langchain-groq''))"
    by (simp add: load_llm_def)
next
  assume "model_provider self = ''openai'' \<and> \<not> ChatOpenAI_installed env"
  then show "load_llm env self =
        ([], Inl (ImportError
           ''langchain_openai is not installed. Install it using: pip install langchain-openai''))"
    by (simp add: load_llm_def)
next
  assume h: "model_provider self = ''groq'' \<and> ChatGroq_installed env
        \<and> ''GROQ_API_KEY'' \<notin> fst ` set (environ env)"
  then have "map_of (environ env) ''GROQ_API_KEY'' = None"
    by (simp add: map_of_eq_None_iff)
  with h show "load_llm env self =
        ([], Inl (ValueError ''GROQ_API_KEY missing! Check your .env file.''))"
    by (simp add: load_llm_def)
next
  assume h: "model_provider self = ''openai'' \<and> ChatOpenAI_installed env
        \<and> ''OPENAI_API_KEY'' \<notin> fst ` set (environ env)"
  then have "map_of (environ env) ''OPENAI_API_KEY'' = None"
    by (simp add: map_of_eq_None_iff)
  with h show "load_llm env self =
        ([], Inl (ValueError ''OPENAI_API_KEY missing! Check your .env file.''))"
    by (simp add: load_llm_def)
qed simp_all

theorem load_llm_failure_kinds_witness:
  "load_llm sample_env \<lparr>model_provider = ''gemini'', config = JNull\<rparr> =
     ([], Inl (ValueError ''Unsupported provider: gemini''))
   \<and> load_llm sample_env \<lparr>model_provider = ''openai'', config = JNull\<rparr> =
     ([], Inl (ImportError
        ''langchain_openai is not installed. Install it using: pip install langchain-openai''))
   \<and> load_llm sample_env \<lparr>model_provider = ''groq'', config = JNull\<rparr> =
     ([], Inl (ValueError ''GROQ_API_KEY missing! Check your .env file.''))
   \<and> load_llm (sample_env\<lparr>ChatGroq_installed := False\<rparr>)
        \<lparr>model_provider = ''groq'', config = JNull\<rparr> =
     ([], Inl (ImportError
        ''langchain_groq is not installed. Install it using: pip install langchain-groq''))
   \<and> load_llm (sample_env\<lparr>ChatOpenAI_installed := True, environ := []\<rparr>)
        \<lparr>model_provider = ''openai'', config = JNull\<rparr> =
     ([], Inl (ValueError ''OPENAI_API_KEY missing! Check your .env file.''))"
proof -
  let ?l = "\<lambda>p. \<lparr>model_provider = p, config = JNull\<rparr>"
  have a: "model_provider (?l ''gemini'') \<notin> {''groq'', ''openai''}" by simp
  have b: "model_provider (?l ''openai'') = ''openai'' \<and> \<not> ChatOpenAI_installed sample_env"
    by (simp add: sample_env_def)
  have c: "model_provider (?l ''groq'') = ''groq'' \<and> ChatGroq_installed sample_env
        \<and> ''GROQ_API_KEY'' \<notin> fst ` set (environ sample_env)"
    by (simp add: sample_env_def)
  have d: "model_provider (?l ''groq'') = ''groq''
        \<and> \<not> ChatGroq_installed (sample_env\<lparr>ChatGroq_installed := False\<rparr>)"
    by simp
  have e: "model_provider (?l ''openai'') = ''openai''
        \<and> ChatOpenAI_installed (sample_env\<lparr>ChatOpenAI_installed := True, environ := []\<rparr>)
        \<and> ''OPENAI_API_KEY'' \<notin>
            fst ` set (environ (sample_env\<lparr>ChatOpenAI_installed := True, environ := []\<rparr>))"
    by simp
  have a': "load_llm sample_env (?l ''gemini'') =
      ([], Inl (ValueError (''Unsupported provider: '' @ model_provider (?l ''gemini''))))"
    using load_llm_failure_kinds [of "?l ''gemini''" sample_env] a by blast
  have b': "load_llm sample_env (?l ''openai'') =
     ([], Inl (ImportError
        ''langchain_openai is not installed. Install it using: pip install langchain-openai''))"
    using load_llm_failure_kinds [of "?l ''openai''" sample_env] b by blast
  have c': "load_llm sample_env (?l ''groq'') =
     ([], Inl (ValueError ''GROQ_API_KEY missing! Check your .env file.''))"
    using load_llm_failure_kinds [of "?l ''groq''" sample_env] c by blast
  have d': "load_llm (sample_env\<lparr>ChatGroq_installed := False\<rparr>) (?l ''groq'') =
     ([], Inl (ImportError
        ''langchain_groq is not installed. Install it using: pip install langchain-groq''))"
    using load_llm_failure_kinds [of "?l ''groq''" "sample_env\<lparr>ChatGroq_installed := False\<rparr>"] d
    by blast
  have e': "load_llm (sample_env\<lparr>ChatOpenAI_installed := True, environ := []\<rparr>) (?l ''openai'') =
     ([], Inl (ValueError ''OPENAI_API_KEY missing! Check your .env file.''))"
    using load_llm_failure_kinds
      [of "?l ''openai''" "sample_env\<lparr>ChatOpenAI_installed := True, environ := []\<rparr>"] e
    by blast
  from a' b' c' d' e' show ?thesis by simp
qed

section \<open>Advice without a chat model\<close>

text \<open>
  C1. The guard for a missing chat model is in \<open>get_combined_advice\<close> only. With the
  handle left at \<open>None\<close> by a failed start, \<open>get_combined_advice\<close> returns
  "AI advice unavailable." and does nothing else, but a valid signed-in upload to the
  analyze route saves the file, classifies it, fetches the weather and then raises
  \<open>TypeError\<close> while composing the chain; the chat model is not called and no page
  is rendered.
\<close>

theorem analyze_without_llm_raises:
  "startup_llm sample_env = None
   \<and> get_combined_advice (sample_app\<lparr>llm := startup_llm sample_env\<rparr>)
        ''Tomato___Early_blight'' ''Mumbai'' = ([], Inr ''AI advice unavailable.'')
   \<and> analyze (sample_app\<lparr>llm := startup_llm sample_env\<rparr>) sample_request =
       ([FileSaved ''static/uploads/leaf.jpg'',
         PredictDiseaseCalled ''static/uploads/leaf.jpg'',
         PreprocessCalled ''static/uploads/leaf.jpg'',
         ModelPredicted,
         CurrentWeatherFetched ''Mumbai''],
        Inl TypeError)"
proof -
  let ?a = "sample_app\<lparr>llm := None\<rparr>"
  have st: "startup_llm sample_env = None"
    by (simp add: startup_llm_def new_ModelLoader_def load_llm_def sample_env_def)
  have adv: "get_combined_advice ?a ''Tomato___Early_blight'' ''Mumbai''
      = ([], Inr ''AI advice unavailable.'')"
    by (simp add: get_combined_advice_def)
  have sf: "secure_filename ?a ''leaf.jpg'' = ''leaf.jpg''" by (simp add: sample_app_def)
  have pd0: "predict_disease ?a ''static/uploads/leaf.jpg'' =
           ([PredictDiseaseCalled ''static/uploads/leaf.jpg'',
             PreprocessCalled ''static/uploads/leaf.jpg'', ModelPredicted],
            Inr (''Tomato___Early_blight'', 92 / 100))"
    by (rule sample_predict) simp_all
  have pd: "predict_disease ?a (path_join UPLOAD_FOLDER (secure_filename ?a ''leaf.jpg'')) =
           ([PredictDiseaseCalled ''static/uploads/leaf.jpg'',
             PreprocessCalled ''static/uploads/leaf.jpg'', ModelPredicted],
            Inr (''Tomato___Early_blight'', 92 / 100))"
    by (simp only: sf sample_path pd0)
  have view: "analyze_view ?a sample_request =
      (FileSaved (path_join UPLOAD_FOLDER (secure_filename ?a ''leaf.jpg'')) #
         [PredictDiseaseCalled ''static/uploads/leaf.jpg'',
          PreprocessCalled ''static/uploads/leaf.jpg'', ModelPredicted]
         @ [CurrentWeatherFetched ''Mumbai''],
       Inl TypeError)"
  proof (rule analyze_view_no_llm [OF _ _ _ sample_allowed _ _ pd])
    show "http_method sample_request = POST" by (simp add: sample_request_def)
    show "files_file sample_request = Some ''leaf.jpg''" by (simp add: sample_request_def)
    show "''leaf.jpg'' \<noteq> []" by simp
    show "form_city sample_request = Some ''Mumbai''" by (simp add: sample_request_def)
    show "''Mumbai'' \<noteq> []" by simp
    show "get_current_weather ?a ''Mumbai'' = Inr sample_weather" by (simp add: sample_app_def)
    show "weather_summary (py_repr ?a) sample_weather
        = Inr (''Clear sky, 30'' @ [CHR 0xB0] @ ''C'')" by (rule sample_summary)
    show "llm ?a = None" by simp
  qed
  have "analyze ?a sample_request = analyze_view ?a sample_request"
    by (rule analyze_logged_in) (simp add: sample_request_def)
  with view sf sample_path have "analyze ?a sample_request =
       ([FileSaved ''static/uploads/leaf.jpg'',
         PredictDiseaseCalled ''static/uploads/leaf.jpg'',
         PreprocessCalled ''static/uploads/leaf.jpg'',
         ModelPredicted,
         CurrentWeatherFetched ''Mumbai''],
        Inl TypeError)" by simp
  with st adv show ?thesis by simp
qed

end
